theory Spec2Isabelle
  imports Main
begin

section \<open>The HTTP client of \<open>src/lib/api-client.ts\<close>\<close>

text \<open>
  The repository holds two revisions of the client: \<open>src/lib/api-client.ts\<close> and an
  extended one (with \<open>parseResponse\<close>, a base-URL warning and debug logging). Both have
  the same origin resolution, header merge, body encoding, timeout guard and retry loop;
  they differ in how a successful response is decoded. The model below follows the
  code of both; the decoder of a successful response is the one place where the two
  differ, and it is a parameter of the attempt loop.

  Console output (\<open>console.warn\<close>, \<open>this.log\<close>) has no influence on any returned value
  and is left out.
\<close>

subsection \<open>Strings\<close>

text \<open>
  A string of the program is the list of the bytes of its UTF-8 encoding: a character
  of ASCII is one byte, any other character is two to four.

  \<open>s.includes(sub)\<close>: \<open>sub\<close> occurs somewhere in \<open>s\<close>.
\<close>

fun starts_with :: "string \<Rightarrow> string \<Rightarrow> bool" where
  "starts_with s [] = True"
| "starts_with [] (c # cs) = False"
| "starts_with (x # xs) (c # cs) = (x = c \<and> starts_with xs cs)"

fun str_includes :: "string \<Rightarrow> string \<Rightarrow> bool" where
  "str_includes [] sub = (sub = [])"
| "str_includes (x # xs) sub = (starts_with (x # xs) sub \<or> str_includes xs sub)"

text \<open>
  \<open>s.trim()\<close> removes white space and line terminators at both ends. These are, in
  ECMAScript, the characters U+0009 to U+000D, U+0020, U+00A0, U+1680, U+2000 to
  U+200A, U+2028, U+2029, U+202F, U+205F, U+3000 and U+FEFF; \<open>white_space\<close> lists
  their encodings.
\<close>

definition white_space :: "string list" where
  "white_space =
     [[CHR 0x09], [CHR 0x0A], [CHR 0x0B], [CHR 0x0C], [CHR 0x0D], [CHR 0x20],
      [CHR 0xC2, CHR 0xA0],
      [CHR 0xE1, CHR 0x9A, CHR 0x80],
      [CHR 0xE2, CHR 0x80, CHR 0x80], [CHR 0xE2, CHR 0x80, CHR 0x81],
      [CHR 0xE2, CHR 0x80, CHR 0x82], [CHR 0xE2, CHR 0x80, CHR 0x83],
      [CHR 0xE2, CHR 0x80, CHR 0x84], [CHR 0xE2, CHR 0x80, CHR 0x85],
      [CHR 0xE2, CHR 0x80, CHR 0x86], [CHR 0xE2, CHR 0x80, CHR 0x87],
      [CHR 0xE2, CHR 0x80, CHR 0x88], [CHR 0xE2, CHR 0x80, CHR 0x89],
      [CHR 0xE2, CHR 0x80, CHR 0x8A],
      [CHR 0xE2, CHR 0x80, CHR 0xA8], [CHR 0xE2, CHR 0x80, CHR 0xA9],
      [CHR 0xE2, CHR 0x80, CHR 0xAF],
      [CHR 0xE2, CHR 0x81, CHR 0x9F],
      [CHR 0xE3, CHR 0x80, CHR 0x80],
      [CHR 0xEF, CHR 0xBB, CHR 0xBF]]"

text \<open>
  \<open>strip_leading ws s\<close> removes from the front of \<open>s\<close> every member of \<open>ws\<close>, as long
  as there is one; \<open>trim\<close> does so at both ends.
\<close>

function strip_leading :: "string list \<Rightarrow> string \<Rightarrow> string" where
  "strip_leading ws s =
     (case find (\<lambda>w. w \<noteq> [] \<and> starts_with s w) ws of
        None \<Rightarrow> s
      | Some w \<Rightarrow> strip_leading ws (drop (length w) s))"
  by pat_completeness auto
termination
proof (relation "measure (\<lambda>(ws, s). length s)")
  show "wf (measure (\<lambda>(ws, s). length s))" by simp
next
  fix ws :: "string list" and s w :: string
  assume "find (\<lambda>w. w \<noteq> [] \<and> starts_with s w) ws = Some w"
  then have w: "w \<noteq> []" "starts_with s w" by (auto simp: find_Some_iff)
  have "length v \<le> length u" if "starts_with u v" for u v :: string
    using that by (induction u v rule: starts_with.induct) auto
  with w have "0 < length w" and "length w \<le> length s" by simp_all
  then have "length s - length w < length s" by arith
  then show "((ws, drop (length w) s), (ws, s)) \<in> measure (\<lambda>(ws, s). length s)" by simp
qed

declare strip_leading.simps [simp del]

definition trim :: "string \<Rightarrow> string" where
  "trim s = rev (strip_leading (map rev white_space) (rev (strip_leading white_space s)))"

text \<open>\<open>s.replace(/\/+$/, '')\<close>: the run of slashes at the end of the string is removed.\<close>

definition strip_trailing_slashes :: "string \<Rightarrow> string" where
  "strip_trailing_slashes s = rev (dropWhile (\<lambda>c. c = CHR ''/'') (rev s))"

text \<open>
  The text of a number in a template literal or under \<open>String(n)\<close>. The numbers of
  the model are whole numbers. Up to \<open>2^53\<close> the text is the decimal digits.
  Beyond, a whole number stands for the nearest double (\<open>to_double\<close>, ties to even),
  and the text has the fewest digits that still read back as that double
  (\<open>shortest\<close>), followed by zeros up to 21 digits and in exponent notation from
  \<open>10^21\<close> on.
\<close>

definition digit_char :: "nat \<Rightarrow> char" where
  "digit_char d = ''0123456789'' ! d"

function show_nat :: "nat \<Rightarrow> string" where
  "show_nat n = (if n < 10 then [digit_char n] else show_nat (n div 10) @ [digit_char (n mod 10)])"
  by pat_completeness auto
termination
  by (relation "measure id") auto

declare show_nat.simps [simp del]

function bit_length :: "nat \<Rightarrow> nat" where
  "bit_length n = (if n = 0 then 0 else Suc (bit_length (n div 2)))"
  by pat_completeness auto
termination
  by (relation "measure id") auto

declare bit_length.simps [simp del]

definition to_double :: "nat \<Rightarrow> nat" where
  "to_double n =
     (let b = bit_length n in
      if b \<le> 53 then n
      else (let e = b - 53; q = n div 2 ^ e; r = n mod 2 ^ e; h = 2 ^ (e - 1)
            in (if h < r \<or> (r = h \<and> odd q) then q + 1 else q) * 2 ^ e))"

text \<open>
  \<open>shortest fuel k x n\<close>, for a double \<open>x\<close> of \<open>n\<close> decimal digits: the digits \<open>s\<close>
  (at least \<open>k\<close> of them, as few as possible) and the exponent \<open>n'\<close> such that
  \<open>s * 10^(n' - length s)\<close> reads back as \<open>x\<close>; of two such \<open>s\<close> the one nearer to
  \<open>x\<close>, and the even one when they are as near. Seventeen digits always do.
\<close>

fun shortest :: "nat \<Rightarrow> nat \<Rightarrow> nat \<Rightarrow> nat \<Rightarrow> nat \<times> nat" where
  "shortest 0 k x n = (x, n)"
| "shortest (Suc fuel) k x n =
     (let p = 10 ^ (n - k); lo = x div p; hi = lo + 1;
          lo_ok = (to_double (lo * p) = x); hi_ok = (to_double (hi * p) = x)
      in if lo_ok \<and> (\<not> hi_ok \<or> x - lo * p < hi * p - x
                      \<or> (x - lo * p = hi * p - x \<and> even lo))
         then (lo, n)
         else if hi_ok then (if hi = 10 ^ k then (1, n + 1) else (hi, n))
         else shortest fuel (k + 1) x n)"

definition large_text :: "nat \<Rightarrow> string" where
  "large_text x =
     (let sn = shortest 17 1 x (length (show_nat x)); ds = show_nat (fst sn); n = snd sn
      in if n \<le> 21 then ds @ replicate (n - length ds) (CHR ''0'')
         else (if length ds = 1 then ds else hd ds # CHR ''.'' # tl ds)
              @ ''e+'' @ show_nat (n - 1))"

definition nat_text :: "nat \<Rightarrow> string" where
  "nat_text n =
     (if n < 9007199254740992 then show_nat n
      else if 2 ^ 1024 \<le> to_double n then ''Infinity''
      else large_text (to_double n))"

definition number_text :: "int \<Rightarrow> string" where
  "number_text i = (if i < 0 then CHR ''-'' # nat_text (nat (- i)) else nat_text (nat i))"

subsection \<open>Origin resolution\<close>

text \<open>
  \<open>resolveBaseUrl\<close> reads \<open>process.env.API_BASE_URL\<close> and
  \<open>process.env.NEXT_PUBLIC_API_BASE_URL\<close> (each a string or undefined) and asks
  \<open>isServer()\<close>. These three are the arguments of the model, in the order: server-side,
  server-only value, public value.

  \<open>x?.trim()\<close> is undefined for an undefined \<open>x\<close>; \<open>v || ''\<close> is the empty string for an
  undefined or empty \<open>v\<close>.
\<close>

definition opt_trim :: "string option \<Rightarrow> string option" where
  "opt_trim v = map_option trim v"

definition or_empty :: "string option \<Rightarrow> string" where
  "or_empty v = (case v of None \<Rightarrow> [] | Some s \<Rightarrow> s)"

definition resolveBaseUrl :: "bool \<Rightarrow> string option \<Rightarrow> string option \<Rightarrow> string" where
  "resolveBaseUrl isServer API_BASE_URL NEXT_PUBLIC_API_BASE_URL =
     (let serverBase = opt_trim API_BASE_URL;
          clientBase = opt_trim NEXT_PUBLIC_API_BASE_URL;
          chosen = or_empty (if isServer then serverBase else clientBase)
      in strip_trailing_slashes chosen)"

subsection \<open>Values, thrown values and responses\<close>

text \<open>
  A JavaScript value as far as the client inspects one: the result of \<open>res.json()\<close> or
  \<open>res.text()\<close>, a request body, the \<open>data\<close> of an error. An object is the list of its
  own properties, each key once.
\<close>

datatype jsvalue =
    JUndefined
  | JNull
  | JBool bool
  | JNum int
  | JStr string
  | JArr "jsvalue list"
  | JObj "(string \<times> jsvalue) list"

text \<open>\<open>typeof v === 'object' && v !== null\<close>; \<open>typeof v === 'string'\<close> is the case \<open>JStr\<close>.\<close>

fun is_nonnull_object :: "jsvalue \<Rightarrow> bool" where
  "is_nonnull_object (JArr xs) = True"
| "is_nonnull_object (JObj kvs) = True"
| "is_nonnull_object v = False"

text \<open>\<open>'message' in v\<close> for a non-null object \<open>v\<close>, and \<open>v.message\<close>.\<close>

fun has_message :: "jsvalue \<Rightarrow> bool" where
  "has_message (JObj kvs) = (''message'' \<in> fst ` set kvs)"
| "has_message v = False"

fun get_message :: "jsvalue \<Rightarrow> jsvalue" where
  "get_message (JObj kvs) = (case map_of kvs ''message'' of None \<Rightarrow> JUndefined | Some v \<Rightarrow> v)"
| "get_message v = JUndefined"

text \<open>
  What a promise can be rejected with: an instance of the module's class \<open>ApiError\<close>
  (message, status, data), another object (whether it is an \<open>instanceof Error\<close>, its
  \<open>name\<close>, its \<open>message\<close>, and its \<open>status\<close> when that is a number), or a value that is
  not an object.
\<close>

datatype thrown =
    ApiError string nat jsvalue
  | ErrorObject bool string string "nat option"
  | NonObject jsvalue

fun isApiErrorLike :: "thrown \<Rightarrow> bool" where
  "isApiErrorLike (ApiError m s d) = True"
| "isApiErrorLike (ErrorObject inst name m st) = (name = ''ApiError'' \<and> st \<noteq> None)"
| "isApiErrorLike (NonObject v) = False"

fun isAbortError :: "thrown \<Rightarrow> bool" where
  "isAbortError (ApiError m s d) = False"
| "isAbortError (ErrorObject inst name m st) = (name = ''AbortError'')"
| "isAbortError (NonObject v) = False"

fun instanceof_Error :: "thrown \<Rightarrow> bool" where
  "instanceof_Error (ApiError m s d) = True"
| "instanceof_Error (ErrorObject inst name m st) = inst"
| "instanceof_Error (NonObject v) = False"

type_synonym blob = "nat list"
type_synonym form = "(string \<times> string) list"

text \<open>
  A response of the transport: status, status text, the value of
  \<open>headers.get('content-type')\<close> (null when the header is missing), and what each of
  the four body readers settles with (\<open>Inl\<close>: the reader rejects). The client
  calls one reader per response.
\<close>

record response =
  status :: nat
  statusText :: string
  content_type :: "string option"
  json_result :: "thrown + jsvalue"
  text_result :: "thrown + string"
  blob_result :: "thrown + blob"
  formData_result :: "thrown + form"

text \<open>\<open>res.ok\<close>, as the Fetch standard defines it.\<close>

definition ok :: "response \<Rightarrow> bool" where
  "ok res = (200 \<le> status res \<and> status res \<le> 299)"

subsection \<open>Decoding a successful response\<close>

datatype decoded =
    FromJson jsvalue
  | FromBlob blob
  | FromFormData form
  | FromText string

definition awaited :: "('a \<Rightarrow> decoded) \<Rightarrow> thrown + 'a \<Rightarrow> thrown + decoded" where
  "awaited tag r = (case r of Inl e \<Rightarrow> Inl e | Inr v \<Rightarrow> Inr (tag v))"

text \<open>\<open>parseResponse\<close> of the extended revision.\<close>

definition parseResponse :: "response \<Rightarrow> thrown + decoded" where
  "parseResponse res =
     (let contentType = or_empty (content_type res) in
      if str_includes contentType ''application/json'' then awaited FromJson (json_result res)
      else if str_includes contentType ''application/octet-stream''
            \<or> str_includes contentType ''image/''
            \<or> str_includes contentType ''video/''
            \<or> str_includes contentType ''audio/''
            \<or> str_includes contentType ''application/pdf''
      then awaited FromBlob (blob_result res)
      else if str_includes contentType ''multipart/form-data''
      then awaited FromFormData (formData_result res)
      else awaited FromText (text_result res))"

text \<open>The success path of \<open>request\<close> in \<open>src/lib/api-client.ts\<close>: JSON when declared, else text.\<close>

definition parseJsonOrText :: "response \<Rightarrow> thrown + decoded" where
  "parseJsonOrText res =
     (let ct = or_empty (content_type res) in
      if str_includes ct ''application/json'' then awaited FromJson (json_result res)
      else awaited FromText (text_result res))"

subsection \<open>Classifying a failed response\<close>

text \<open>
  The payload of a response that is not ok: \<open>res.json()\<close> when JSON is declared, else
  \<open>res.text()\<close>, and undefined when the reader rejects.
\<close>

definition error_isJson :: "response \<Rightarrow> bool" where
  "error_isJson res = str_includes (or_empty (content_type res)) ''application/json''"

definition error_data :: "response \<Rightarrow> jsvalue" where
  "error_data res =
     (if error_isJson res
      then (case json_result res of Inl e \<Rightarrow> JUndefined | Inr v \<Rightarrow> v)
      else (case text_result res of Inl e \<Rightarrow> JUndefined | Inr s \<Rightarrow> JStr s))"

text \<open>
  The local \<open>message\<close> after the first \<open>if\<close> (None: undefined), after the second, and the
  first argument of \<open>new ApiError\<close>.
\<close>

definition message_from_json :: "response \<Rightarrow> string option" where
  "message_from_json res =
     (let data = error_data res in
      if error_isJson res \<and> is_nonnull_object data \<and> has_message data
      then (case get_message data of JStr s \<Rightarrow> Some s | _ \<Rightarrow> None)
      else None)"

definition falsy_message :: "string option \<Rightarrow> bool" where
  "falsy_message m = (case m of None \<Rightarrow> True | Some s \<Rightarrow> s = [])"

definition message_or_fallback :: "response \<Rightarrow> string" where
  "message_or_fallback res =
     (let message = message_from_json res in
      if falsy_message message
      then (case error_data res of JStr s \<Rightarrow> s | _ \<Rightarrow> statusText res)
      else or_empty message)"

definition error_message :: "response \<Rightarrow> string" where
  "error_message res =
     (let message = message_or_fallback res in
      if message = [] then ''HTTP '' @ show_nat (status res) else message)"

subsection \<open>Client state, request options and the transport\<close>

type_synonym headers = "string \<rightharpoonup> string"

text \<open>
  A header record is a plain object: its keys are compared as strings, so
  \<open>'Content-Type'\<close> and \<open>'content-type'\<close> are two keys. The transport (\<open>fetch\<close>, and
  \<open>new Headers(init.headers)\<close> in the tests) compares header names without regard to
  case: \<open>has_header\<close> is \<open>new Headers(h).has(name)\<close>.
\<close>

definition lower_char :: "char \<Rightarrow> char" where
  "lower_char c =
     (case map_of (zip ''ABCDEFGHIJKLMNOPQRSTUVWXYZ'' ''abcdefghijklmnopqrstuvwxyz'') c of
        None \<Rightarrow> c
      | Some l \<Rightarrow> l)"

definition lower :: "string \<Rightarrow> string" where
  "lower s = map lower_char s"

definition has_header :: "headers \<Rightarrow> string \<Rightarrow> bool" where
  "has_header h name = (\<exists>k \<in> dom h. lower k = lower name)"

text \<open>
  The values the transport reads under a name: those of all the keys that are this name
  up to case. \<open>new Headers(h).get(name)\<close> is these values joined by a comma.
\<close>

definition header_values :: "headers \<Rightarrow> string \<Rightarrow> string set" where
  "header_values h name = {v. \<exists>k. h k = Some v \<and> lower k = lower name}"

record client =
  baseUrl :: string
  defaultHeaders :: headers
  authToken :: "string option"

text \<open>The private constructor with the field initialisers of the class.\<close>

definition new_client :: "string \<Rightarrow> client" where
  "new_client url =
     \<lparr>baseUrl = url,
      defaultHeaders = [''Content-Type'' \<mapsto> ''application/json''],
      authToken = None\<rparr>"

definition setAuth :: "string option \<Rightarrow> client \<Rightarrow> client" where
  "setAuth token c = c\<lparr>authToken := token\<rparr>"

datatype HttpMethod = GET | POST | PUT | PATCH | DELETE

text \<open>
  A request body: one of the four kinds \<open>isMultipartLike\<close> recognises, or any other
  value.
\<close>

datatype reqbody =
    FormDataBody form
  | BlobBody blob
  | ArrayBufferBody "nat list"
  | ArrayBufferViewBody "nat list"
  | ValueBody jsvalue

fun isMultipartLike :: "reqbody \<Rightarrow> bool" where
  "isMultipartLike (FormDataBody f) = True"
| "isMultipartLike (BlobBody b) = True"
| "isMultipartLike (ArrayBufferBody b) = True"
| "isMultipartLike (ArrayBufferViewBody b) = True"
| "isMultipartLike (ValueBody v) = False"

datatype qvalue = QStr string | QNum int | QBool bool | QNull | QUndefined

record RetryOptions =
  attempts :: "int option"
  backoffMs :: "int option"
  retryOn :: "nat list option"

text \<open>
  The options of \<open>request\<close>; None is an absent (undefined) property, and
  \<open>http_method\<close> is the property \<open>method\<close>. Counts and
  durations are whole numbers. \<open>headers\<close> is a plain record of strings; \<open>signal\<close>,
  \<open>cache\<close> and \<open>next\<close> are handed to the transport as they are.
\<close>

record RequestOptions =
  path :: string
  http_method :: "HttpMethod option"
  query :: "(string \<times> qvalue) list option"
  body :: "reqbody option"
  headers :: "headers option"
  signal :: "nat option"
  timeoutMs :: "int option"
  cache :: "string option"
  next_opts :: "string option"
  retry :: "RetryOptions option"

text \<open>What \<open>init.body\<close> is set to: the caller's body itself, or \<open>JSON.stringify\<close> of it.\<close>

datatype transport_body = Unmodified reqbody | Stringified reqbody

record init =
  init_method :: HttpMethod
  init_headers :: headers
  init_signal :: "nat option"
  init_cache :: "string option"
  init_next :: "string option"
  init_body :: "transport_body option"

text \<open>
  A promise with the time (in ms after its creation) at which it settles, if ever.
\<close>

datatype 'a promise = Fulfils nat 'a | Rejects nat thrown | Never

text \<open>
  What the client takes from its runtime: \<open>isServer()\<close>, \<open>window.location.origin\<close>,
  \<open>new URL(path, origin)\<close> (which can throw) read back as a string,
  \<open>url.searchParams.set(k, v)\<close>, and \<open>fetch\<close>, whose result may depend on how many
  times it was invoked before during the call.
\<close>

record platform =
  isServer :: bool
  window_origin :: string
  new_URL :: "string \<Rightarrow> string \<Rightarrow> thrown + string"
  searchParams_set :: "string \<Rightarrow> string \<Rightarrow> string \<Rightarrow> string"
  fetch :: "nat \<Rightarrow> string \<Rightarrow> init \<Rightarrow> response promise"

subsection \<open>\<open>buildUrl\<close>\<close>

fun String :: "qvalue \<Rightarrow> string" where
  "String (QStr s) = s"
| "String (QNum n) = number_text n"
| "String (QBool b) = (if b then ''true'' else ''false'')"
| "String QNull = ''null''"
| "String QUndefined = ''undefined''"

definition set_param :: "platform \<Rightarrow> string \<times> qvalue \<Rightarrow> string \<Rightarrow> string" where
  "set_param plat kv url =
     (if snd kv \<noteq> QNull \<and> snd kv \<noteq> QUndefined
      then searchParams_set plat url (fst kv) (String (snd kv)) else url)"

definition buildUrl ::
  "platform \<Rightarrow> client \<Rightarrow> string \<Rightarrow> (string \<times> qvalue) list option \<Rightarrow> thrown + string" where
  "buildUrl plat c p q =
     (let cleanedPath = (if starts_with p ''/'' then p else CHR ''/'' # p);
          origin = (if baseUrl c \<noteq> [] then baseUrl c
                    else if isServer plat then ''http://localhost''
                    else window_origin plat)
      in case new_URL plat cleanedPath origin of
           Inl e \<Rightarrow> Inl e
         | Inr url \<Rightarrow> Inr (case q of None \<Rightarrow> url | Some kvs \<Rightarrow> fold (set_param plat) kvs url))"

subsection \<open>\<open>withTimeout\<close>\<close>

text \<open>
  \<open>setTimeout(f, ms)\<close> with a whole \<open>ms\<close> of at least 1 fires after \<open>ms\<close>
  milliseconds when \<open>ms\<close> is at most \<open>2^31 - 1\<close>; the timers of Node, on which the
  tests run, fire after 1 ms for a longer delay.

  The race of \<open>withTimeout\<close>: the transport call is started before the timer is set,
  and the promise wins when it settles within the delay of the timer, the millisecond
  of the deadline included.
\<close>

definition timer_delay :: "int \<Rightarrow> int" where
  "timer_delay ms = (if 2147483647 < ms then 1 else ms)"

fun settles_within :: "int \<Rightarrow> 'a promise \<Rightarrow> bool" where
  "settles_within ms (Fulfils t v) = (int t \<le> ms)"
| "settles_within ms (Rejects t e) = (int t \<le> ms)"
| "settles_within ms Never = False"

definition timeout_error :: "int \<Rightarrow> thrown" where
  "timeout_error ms =
     ErrorObject True ''Error'' (''Request timed out after '' @ number_text ms @ ''ms'') None"

definition withTimeout :: "'a promise \<Rightarrow> int option \<Rightarrow> 'a promise" where
  "withTimeout p ms =
     (case ms of
        None \<Rightarrow> p
      | Some m \<Rightarrow>
          if m = 0 \<or> m \<le> 0 then p
          else if settles_within (timer_delay m) p then p
          else Rejects (nat (timer_delay m)) (timeout_error m))"

subsection \<open>Headers and body of the transport call\<close>

definition auth_header :: "client \<Rightarrow> headers" where
  "auth_header c =
     (case authToken c of
        None \<Rightarrow> Map.empty
      | Some t \<Rightarrow> if t \<noteq> [] then [''Authorization'' \<mapsto> ''Bearer '' @ t] else Map.empty)"

definition mergedHeaders :: "client \<Rightarrow> headers option \<Rightarrow> headers" where
  "mergedHeaders c hs =
     defaultHeaders c ++ auth_header c ++ (case hs of None \<Rightarrow> Map.empty | Some h \<Rightarrow> h)"

definition method_or_default :: "RequestOptions \<Rightarrow> HttpMethod" where
  "method_or_default opts = (case http_method opts of None \<Rightarrow> GET | Some m \<Rightarrow> m)"

text \<open>
  \<open>init\<close> as \<open>fetch\<close> receives it. \<open>init.headers\<close> is the object \<open>mergedHeaders\<close> itself, so
  the \<open>delete\<close> in the multipart branch is seen by the transport.
\<close>

definition build_init :: "client \<Rightarrow> RequestOptions \<Rightarrow> init" where
  "build_init c opts =
     (let m = method_or_default opts;
          merged = mergedHeaders c (headers opts);
          ini = \<lparr>init_method = m, init_headers = merged, init_signal = signal opts,
                 init_cache = cache opts, init_next = next_opts opts, init_body = None\<rparr>
      in case body opts of
           None \<Rightarrow> ini
         | Some b \<Rightarrow>
             if m \<noteq> GET \<and> b \<noteq> ValueBody JUndefined then
               (if isMultipartLike b
                then ini\<lparr>init_headers := merged(''Content-Type'' := None),
                         init_body := Some (Unmodified b)\<rparr>
                else if merged ''Content-Type'' = Some ''application/json''
                then ini\<lparr>init_body := Some (Stringified b)\<rparr>
                else ini\<lparr>init_body := Some (Unmodified b)\<rparr>)
             else ini)"

subsection \<open>Retry defaults\<close>

definition retry_attempts :: "RetryOptions option \<Rightarrow> int" where
  "retry_attempts r =
     max 1 (case r of None \<Rightarrow> 1 | Some ro \<Rightarrow> (case attempts ro of None \<Rightarrow> 1 | Some n \<Rightarrow> n))"

definition retry_backoffMs :: "RetryOptions option \<Rightarrow> int" where
  "retry_backoffMs r =
     (case r of None \<Rightarrow> 300 | Some ro \<Rightarrow> (case backoffMs ro of None \<Rightarrow> 300 | Some n \<Rightarrow> n))"

definition default_retryOn :: "nat list" where
  "default_retryOn = [408, 429, 500, 502, 503, 504]"

definition retry_retryOn :: "RetryOptions option \<Rightarrow> nat list" where
  "retry_retryOn r =
     (case r of None \<Rightarrow> default_retryOn
      | Some ro \<Rightarrow> (case retryOn ro of None \<Rightarrow> default_retryOn | Some xs \<Rightarrow> xs))"

definition backoff_delay :: "int \<Rightarrow> int \<Rightarrow> int" where
  "backoff_delay backoff attempt = backoff * 2 ^ nat (attempt - 1)"

subsection \<open>One attempt\<close>

text \<open>
  How the \<open>try\<close> block of one loop iteration ends: \<open>return\<close> of the decoded payload,
  the \<open>continue\<close> of the status retry (after the given delay), a value thrown into the
  \<open>catch\<close> block, or never (the awaited promise stays pending).

  \<open>parse\<close> is the decoder of a successful response: \<open>parseJsonOrText\<close> in
  \<open>src/lib/api-client.ts\<close>, \<open>parseResponse\<close> in the extended revision. \<open>k\<close> counts the
  earlier invocations of \<open>fetch\<close>.
\<close>

datatype try_result = Return decoded | Continue int | Throw thrown | Hang

definition try_block ::
  "(response \<Rightarrow> thrown + decoded) \<Rightarrow> platform \<Rightarrow> string \<Rightarrow> init \<Rightarrow> int option \<Rightarrow>
   int \<Rightarrow> int \<Rightarrow> nat list \<Rightarrow> int \<Rightarrow> nat \<Rightarrow> try_result" where
  "try_block parse plat url ini tmo n_attempts backoff retry_on attempt k =
     (case withTimeout (fetch plat k url ini) tmo of
        Never \<Rightarrow> Hang
      | Rejects t e \<Rightarrow> Throw e
      | Fulfils t res \<Rightarrow>
          if \<not> ok res then
            (if attempt < n_attempts \<and> status res \<in> set retry_on
             then Continue (backoff_delay backoff attempt)
             else Throw (ApiError (error_message res) (status res) (error_data res)))
          else (case parse res of Inl e \<Rightarrow> Throw e | Inr v \<Rightarrow> Return v))"

subsection \<open>The attempt loop\<close>

text \<open>
  What a call does that can be observed from outside: each invocation of the transport
  with its arguments, each backoff wait with the delay handed to \<open>setTimeout\<close>, and
  whether the statement after the loop was reached.
\<close>

datatype event = Fetch string init | Sleep int | FellThrough

datatype outcome = Resolved decoded | RejectedWith thrown | Unsettled

definition after :: "event list \<Rightarrow> outcome \<times> event list \<Rightarrow> outcome \<times> event list" where
  "after evs r = (fst r, evs @ snd r)"

definition unknown_error :: thrown where
  "unknown_error = ErrorObject True ''Error'' ''Unknown API error'' None"

definition final_throw :: "thrown option \<Rightarrow> thrown" where
  "final_throw lastError =
     (case lastError of
        None \<Rightarrow> unknown_error
      | Some e \<Rightarrow> if instanceof_Error e then e else unknown_error)"

function attempt_loop ::
  "(response \<Rightarrow> thrown + decoded) \<Rightarrow> platform \<Rightarrow> string \<Rightarrow> init \<Rightarrow> int option \<Rightarrow>
   int \<Rightarrow> int \<Rightarrow> nat list \<Rightarrow> int \<Rightarrow> thrown option \<Rightarrow> nat \<Rightarrow> outcome \<times> event list" where
  "attempt_loop parse plat url ini tmo n_attempts backoff retry_on attempt lastError k =
     (if attempt \<le> n_attempts then
        (case try_block parse plat url ini tmo n_attempts backoff retry_on attempt k of
           Return v \<Rightarrow> (Resolved v, [Fetch url ini])
         | Hang \<Rightarrow> (Unsettled, [Fetch url ini])
         | Continue delay \<Rightarrow>
             after [Fetch url ini, Sleep delay]
               (attempt_loop parse plat url ini tmo n_attempts backoff retry_on
                  (attempt + 1) lastError (Suc k))
         | Throw err \<Rightarrow>
             if attempt < n_attempts \<and> \<not> isApiErrorLike err \<and> \<not> isAbortError err
             then after [Fetch url ini, Sleep (backoff_delay backoff attempt)]
                    (attempt_loop parse plat url ini tmo n_attempts backoff retry_on
                       (attempt + 1) (Some err) (Suc k))
             else (RejectedWith err, [Fetch url ini]))
      else (RejectedWith (final_throw lastError), [FellThrough]))"
  by pat_completeness auto
termination
  by (relation "measure (\<lambda>(parse, plat, url, ini, tmo, n, backoff, retry_on, attempt, lastError, k).
                   nat (n + 1 - attempt))") auto

declare attempt_loop.simps [simp del]

subsection \<open>\<open>request\<close>\<close>

text \<open>
  \<open>timeoutMs = 15_000\<close> in the parameter list: an absent option takes the default, and
  \<open>withTimeout\<close> is always called with a number.
\<close>

definition timeout_or_default :: "RequestOptions \<Rightarrow> int" where
  "timeout_or_default opts = (case timeoutMs opts of None \<Rightarrow> 15000 | Some t \<Rightarrow> t)"

definition request ::
  "(response \<Rightarrow> thrown + decoded) \<Rightarrow> platform \<Rightarrow> client \<Rightarrow> RequestOptions \<Rightarrow>
   outcome \<times> event list" where
  "request parse plat c opts =
     (case buildUrl plat c (path opts) (query opts) of
        Inl e \<Rightarrow> (RejectedWith e, [])
      | Inr url \<Rightarrow>
          attempt_loop parse plat url (build_init c opts) (Some (timeout_or_default opts))
            (retry_attempts (retry opts)) (retry_backoffMs (retry opts))
            (retry_retryOn (retry opts)) 1 None 0)"

text \<open>The number of transport invocations in a trace.\<close>

fun is_Fetch :: "event \<Rightarrow> bool" where
  "is_Fetch (Fetch url ini) = True"
| "is_Fetch e = False"

definition transport_calls :: "event list \<Rightarrow> nat" where
  "transport_calls evs = length (filter is_Fetch evs)"

subsection \<open>The set-up of the test suite\<close>

text \<open>
  The tests run on the server side (no \<open>window\<close>), with no base URL configured and
  with \<open>fetch\<close> replaced by a mock; \<open>mock k\<close> is what the mock answers to its
  invocation number \<open>k\<close> (from 0). The URLs of the tests are the origin followed by
  the path.

  \<open>makeRes\<close> is the helper of the tests: a response with the given status, body and
  content type and, as in Node, an empty status text. Its arguments here are the text
  of the body and what \<open>JSON.parse\<close> makes of it.
\<close>

definition quoted :: "string \<Rightarrow> string" where
  "quoted s = CHR 0x22 # s @ [CHR 0x22]"

definition makeRes :: "nat \<Rightarrow> string \<Rightarrow> thrown + jsvalue \<Rightarrow> string \<Rightarrow> response" where
  "makeRes st raw parsed contentType =
     \<lparr>status = st, statusText = [], content_type = Some contentType,
      json_result = parsed, text_result = Inr raw,
      blob_result = Inr (map of_char raw),
      formData_result = Inl (ErrorObject True ''TypeError'' ''Failed to parse body as FormData.'' None)\<rparr>"

definition SyntaxError :: thrown where
  "SyntaxError = ErrorObject True ''SyntaxError'' ''Unexpected end of JSON input'' None"

definition test_platform :: "(nat \<Rightarrow> response promise) \<Rightarrow> platform" where
  "test_platform mock =
     \<lparr>isServer = True, window_origin = [],
      new_URL = (\<lambda>p origin. Inr (origin @ p)),
      searchParams_set = (\<lambda>url k v. url @ ''?'' @ k @ ''='' @ v),
      fetch = (\<lambda>k url ini. mock k)\<rparr>"

definition call :: "HttpMethod \<Rightarrow> string \<Rightarrow> RequestOptions" where
  "call m p =
     \<lparr>path = p, http_method = Some m, query = None, body = None, headers = None,
      signal = None, timeoutMs = None, cache = None, next_opts = None, retry = None\<rparr>"

definition retry_with :: "int \<Rightarrow> RetryOptions" where
  "retry_with n = \<lparr>attempts = Some n, backoffMs = None, retryOn = None\<rparr>"

definition res_500_busy :: response where
  "res_500_busy = makeRes 500 (''{'' @ quoted ''error'' @ '':'' @ quoted ''server busy'' @ ''}'')
                    (Inr (JObj [(''error'', JStr ''server busy'')])) ''application/json''"

definition res_200_ok :: response where
  "res_200_ok = makeRes 200 (''{'' @ quoted ''ok'' @ '':true}'')
                  (Inr (JObj [(''ok'', JBool True)])) ''application/json''"

definition res_404_nope :: response where
  "res_404_nope = makeRes 404 (''{'' @ quoted ''error'' @ '':'' @ quoted ''nope'' @ ''}'')
                    (Inr (JObj [(''error'', JStr ''nope'')])) ''application/json''"

definition res_400_bad :: response where
  "res_400_bad = makeRes 400 (''{'' @ quoted ''message'' @ '':'' @ quoted ''Bad stuff happened'' @ ''}'')
                   (Inr (JObj [(''message'', JStr ''Bad stuff happened'')])) ''application/json''"

definition res_200_empty :: response where
  "res_200_empty = makeRes 200 [] (Inl SyntaxError) ''application/json''"

definition res_404_empty_text :: response where
  "res_404_empty_text = (makeRes 404 [] (Inl SyntaxError) ''text/plain'')\<lparr>statusText := ''Not Found''\<rparr>"

definition AbortError :: thrown where
  "AbortError = ErrorObject True ''AbortError'' ''aborted'' None"

text \<open>
  A 503 whose body cannot be read any more because the caller's signal was aborted
  after the headers arrived: every reader rejects with the \<open>AbortError\<close>.
\<close>

definition res_503_aborted :: response where
  "res_503_aborted =
     \<lparr>status = 503, statusText = [], content_type = Some ''application/json'',
      json_result = Inl AbortError, text_result = Inl AbortError,
      blob_result = Inl AbortError, formData_result = Inl AbortError\<rparr>"

section \<open>Properties\<close>

lemmas fixture_defs = makeRes_def test_platform_def call_def retry_with_def res_500_busy_def
  res_200_ok_def res_404_nope_def quoted_def SyntaxError_def res_400_bad_def res_200_empty_def
  res_404_empty_text_def AbortError_def res_503_aborted_def

lemmas model_defs = request_def buildUrl_def build_init_def mergedHeaders_def auth_header_def
  method_or_default_def timeout_or_default_def retry_attempts_def retry_backoffMs_def
  retry_retryOn_def default_retryOn_def backoff_delay_def new_client_def setAuth_def
  try_block_def withTimeout_def timer_delay_def timeout_error_def ok_def
  number_text_def nat_text_def
  parseResponse_def parseJsonOrText_def awaited_def or_empty_def
  error_message_def message_or_fallback_def message_from_json_def falsy_message_def
  error_data_def error_isJson_def after_def

subsection \<open>Origin resolution\<close>

lemma strip_trailing_slashes_decomp:
  "\<exists>n. s = strip_trailing_slashes s @ replicate n (CHR ''/'')"
proof -
  let ?P = "\<lambda>c. c = CHR ''/''"
  have tw: "takeWhile ?P ys = replicate (length (takeWhile ?P ys)) (CHR ''/'')" for ys
    by (induction ys) auto
  have "rev s = takeWhile ?P (rev s) @ dropWhile ?P (rev s)" by simp
  then have "rev (rev s) = rev (takeWhile ?P (rev s) @ dropWhile ?P (rev s))"
    by (rule arg_cong)
  then have "s = rev (dropWhile ?P (rev s)) @ rev (takeWhile ?P (rev s))"
    by (simp only: rev_rev_ident rev_append)
  also have "rev (takeWhile ?P (rev s)) = replicate (length (takeWhile ?P (rev s))) (CHR ''/'')"
    using tw [of "rev s"] by (metis rev_replicate)
  finally show ?thesis unfolding strip_trailing_slashes_def by blast
qed

lemma strip_trailing_slashes_no_slash: "strip_trailing_slashes s \<noteq> r @ ''/''"
proof
  assume "strip_trailing_slashes s = r @ ''/''"
  then have "rev (rev (dropWhile (\<lambda>c. c = CHR ''/'') (rev s))) = rev (r @ ''/'')"
    unfolding strip_trailing_slashes_def by (rule arg_cong)
  then have "dropWhile (\<lambda>c. c = CHR ''/'') (rev s) = CHR ''/'' # rev r"
    by simp
  then show False
    using hd_dropWhile [of "\<lambda>c. c = CHR ''/''" "rev s"] by auto
qed

text \<open>
  C2, as the code has it. On the server the result is computed from the server-only
  value alone, in the browser from the public value alone: the other value is never
  consulted, and an absent selected value gives the empty string whatever the other one
  is. The result is the selected value, trimmed, without the slashes at its end: the
  trimmed value is the result followed by slashes only, and the result never ends in a
  slash.
\<close>

theorem resolveBaseUrl_selected_value_only:
  "resolveBaseUrl True s p = resolveBaseUrl True s None
   \<and> resolveBaseUrl False s p = resolveBaseUrl False None p
   \<and> resolveBaseUrl True None p = []
   \<and> resolveBaseUrl False s None = []
   \<and> (\<exists>n. trim v = resolveBaseUrl True (Some v) p @ replicate n (CHR ''/''))
   \<and> (\<exists>n. trim v = resolveBaseUrl False s (Some v) @ replicate n (CHR ''/''))
   \<and> (\<forall>r. resolveBaseUrl b s p \<noteq> r @ ''/'')"
proof -
  have a: "resolveBaseUrl True s p = resolveBaseUrl True s None"
    and b: "resolveBaseUrl False s p = resolveBaseUrl False None p"
    by (simp_all add: resolveBaseUrl_def)
  have c: "resolveBaseUrl True None p = []" and d: "resolveBaseUrl False s None = []"
    by (simp_all add: resolveBaseUrl_def opt_trim_def or_empty_def strip_trailing_slashes_def)
  have e: "\<exists>n. trim v = resolveBaseUrl True (Some v) p @ replicate n (CHR ''/'')"
    using strip_trailing_slashes_decomp [of "trim v"]
    by (simp add: resolveBaseUrl_def opt_trim_def or_empty_def)
  have f: "\<exists>n. trim v = resolveBaseUrl False s (Some v) @ replicate n (CHR ''/'')"
    using strip_trailing_slashes_decomp [of "trim v"]
    by (simp add: resolveBaseUrl_def opt_trim_def or_empty_def)
  have g: "\<forall>r. resolveBaseUrl b s p \<noteq> r @ ''/''"
    by (simp add: resolveBaseUrl_def Let_def strip_trailing_slashes_no_slash)
  from a b c d e f g show ?thesis by blast
qed

text \<open>
  C2 on a server-only value with a no-break space (U+00A0) and a space around it and two
  slashes at its end, the public value being set as well.
\<close>

theorem resolveBaseUrl_selected_value_only_witness:
  "resolveBaseUrl True
     (Some ([CHR 0xC2, CHR 0xA0] @ '' https://api.example.com// '' @ [CHR 0xC2, CHR 0xA0]))
     (Some ''https://public.example.com'')
     = ''https://api.example.com''
   \<and> resolveBaseUrl True
     (Some ([CHR 0xC2, CHR 0xA0] @ '' https://api.example.com// '' @ [CHR 0xC2, CHR 0xA0]))
     (Some ''https://public.example.com'')
     = resolveBaseUrl True
         (Some ([CHR 0xC2, CHR 0xA0] @ '' https://api.example.com// '' @ [CHR 0xC2, CHR 0xA0]))
         None
   \<and> (\<forall>r. resolveBaseUrl True
          (Some ([CHR 0xC2, CHR 0xA0] @ '' https://api.example.com// '' @ [CHR 0xC2, CHR 0xA0]))
          (Some ''https://public.example.com'')
          \<noteq> r @ ''/'')"
proof -
  let ?S = "Some ([CHR 0xC2, CHR 0xA0] @ '' https://api.example.com// '' @ [CHR 0xC2, CHR 0xA0])"
  let ?P = "Some ''https://public.example.com''"
  note t = resolveBaseUrl_selected_value_only [of ?S ?P "[]" True]
  have e: "resolveBaseUrl True ?S None = ''https://api.example.com''"
    by (simp add: resolveBaseUrl_def opt_trim_def or_empty_def trim_def white_space_def
        strip_leading.simps strip_trailing_slashes_def)
  from t have a: "resolveBaseUrl True ?S ?P = resolveBaseUrl True ?S None"
    by (rule conjunct1)
  from t have g: "\<forall>r. resolveBaseUrl True ?S ?P \<noteq> r @ ''/''"
    by (elim conjE)
  from a e have "resolveBaseUrl True ?S ?P = ''https://api.example.com''" by (rule trans)
  with a g show ?thesis by (intro conjI)
qed

text \<open>
  C2 as stated fails: on the server, with the server-only value absent and the public
  value present, the public value is not used as a fallback; the result is the empty
  string.
\<close>

theorem resolveBaseUrl_no_fallback:
  "resolveBaseUrl True None (Some ''https://public.example.com'') = []
   \<and> resolveBaseUrl True None (Some ''https://public.example.com'') \<noteq> ''https://public.example.com''"
  by (simp add: resolveBaseUrl_def opt_trim_def or_empty_def strip_trailing_slashes_def)

subsection \<open>The attempt loop and the request\<close>

lemma try_block_Continue:
  assumes "try_block parse plat url ini tmo n backoff retry_on attempt k = Continue d"
  shows "attempt < n \<and> d = backoff_delay backoff attempt"
  using assms unfolding try_block_def
  by (auto split: promise.splits if_splits sum.splits)

lemma attempt_loop_Return:
  assumes "attempt \<le> n"
    and "try_block parse plat url ini tmo n backoff retry_on attempt k = Return v"
  shows "attempt_loop parse plat url ini tmo n backoff retry_on attempt le k
         = (Resolved v, [Fetch url ini])"
  using assms by (simp add: attempt_loop.simps)

lemma attempt_loop_Hang:
  assumes "attempt \<le> n"
    and "try_block parse plat url ini tmo n backoff retry_on attempt k = Hang"
  shows "attempt_loop parse plat url ini tmo n backoff retry_on attempt le k
         = (Unsettled, [Fetch url ini])"
  using assms by (simp add: attempt_loop.simps)

lemma attempt_loop_Continue:
  assumes "attempt \<le> n"
    and "try_block parse plat url ini tmo n backoff retry_on attempt k = Continue d"
  shows "attempt_loop parse plat url ini tmo n backoff retry_on attempt le k
         = after [Fetch url ini, Sleep d]
             (attempt_loop parse plat url ini tmo n backoff retry_on (attempt + 1) le (Suc k))"
  using assms by (subst attempt_loop.simps) simp

lemma attempt_loop_Throw_retry:
  assumes "attempt < n"
    and "try_block parse plat url ini tmo n backoff retry_on attempt k = Throw e"
    and "\<not> isApiErrorLike e" and "\<not> isAbortError e"
  shows "attempt_loop parse plat url ini tmo n backoff retry_on attempt le k
         = after [Fetch url ini, Sleep (backoff_delay backoff attempt)]
             (attempt_loop parse plat url ini tmo n backoff retry_on (attempt + 1) (Some e) (Suc k))"
  using assms by (subst attempt_loop.simps) simp

lemma attempt_loop_Throw_final:
  assumes "attempt \<le> n"
    and "try_block parse plat url ini tmo n backoff retry_on attempt k = Throw e"
    and "\<not> attempt < n \<or> isApiErrorLike e \<or> isAbortError e"
  shows "attempt_loop parse plat url ini tmo n backoff retry_on attempt le k
         = (RejectedWith e, [Fetch url ini])"
  using assms by (subst attempt_loop.simps) auto


lemma attempt_loop_no_FellThrough:
  "attempt \<le> n \<Longrightarrow>
   FellThrough \<notin> set (snd (attempt_loop parse plat url ini tmo n backoff retry_on attempt le k))"
proof (induction parse plat url ini tmo n backoff retry_on attempt le k rule: attempt_loop.induct)
  case (1 parse plat url ini tmo n backoff retry_on attempt le k)
  show ?case
  proof (cases "try_block parse plat url ini tmo n backoff retry_on attempt k")
    case (Return v)
    with "1.prems" show ?thesis by (simp add: attempt_loop_Return)
  next
    case (Continue d)
    then have "attempt + 1 \<le> n" using try_block_Continue by fastforce
    with "1.IH"(1) [OF "1.prems" Continue] "1.prems" Continue show ?thesis
      by (simp add: attempt_loop_Continue after_def)
  next
    case (Throw e)
    show ?thesis
    proof (cases "attempt < n \<and> \<not> isApiErrorLike e \<and> \<not> isAbortError e")
      case True
      then have "attempt + 1 \<le> n" by simp
      with "1.IH"(2) [OF "1.prems" Throw True] True Throw show ?thesis
        by (simp add: attempt_loop_Throw_retry after_def)
    next
      case False
      with "1.prems" Throw show ?thesis by (simp add: attempt_loop_Throw_final)
    qed
  next
    case Hang
    with "1.prems" show ?thesis by (simp add: attempt_loop_Hang)
  qed
qed

lemma attempt_loop_last:
  assumes "attempt = n"
  shows "snd (attempt_loop parse plat url ini tmo n backoff retry_on attempt le k) = [Fetch url ini]"
proof (cases "try_block parse plat url ini tmo n backoff retry_on attempt k")
  case (Return v)
  with assms show ?thesis by (simp add: attempt_loop_Return)
next
  case (Continue d)
  with assms show ?thesis using try_block_Continue by fastforce
next
  case (Throw e)
  with assms show ?thesis by (simp add: attempt_loop_Throw_final)
next
  case Hang
  with assms show ?thesis by (simp add: attempt_loop_Hang)
qed

lemma attempt_loop_same_call:
  "\<forall>u i. Fetch u i \<in> set (snd (attempt_loop parse plat url ini tmo n backoff retry_on attempt le k))
     \<longrightarrow> u = url \<and> i = ini"
proof (induction parse plat url ini tmo n backoff retry_on attempt le k rule: attempt_loop.induct)
  case (1 parse plat url ini tmo n backoff retry_on attempt le k)
  show ?case
  proof (cases "attempt \<le> n")
    case False
    then show ?thesis by (subst attempt_loop.simps) simp
  next
    case le: True
    show ?thesis
    proof (cases "try_block parse plat url ini tmo n backoff retry_on attempt k")
      case (Return v)
      with le show ?thesis by (simp add: attempt_loop_Return)
    next
      case (Continue d)
      with "1.IH"(1) [OF le Continue] le show ?thesis
        by (simp add: attempt_loop_Continue after_def)
    next
      case (Throw e)
      show ?thesis
      proof (cases "attempt < n \<and> \<not> isApiErrorLike e \<and> \<not> isAbortError e")
        case True
        with "1.IH"(2) [OF le Throw True] Throw show ?thesis
          by (simp add: attempt_loop_Throw_retry after_def)
      next
        case False
        with le Throw show ?thesis by (simp add: attempt_loop_Throw_final)
      qed
    next
      case Hang
      with le show ?thesis by (simp add: attempt_loop_Hang)
    qed
  qed
qed

lemma try_block_failed_response:
  assumes "withTimeout (fetch plat k url ini) tmo = Fulfils t res" and "\<not> ok res"
  shows "try_block parse plat url ini tmo n backoff retry_on attempt k
         = (if attempt < n \<and> status res \<in> set retry_on
            then Continue (backoff_delay backoff attempt)
            else Throw (ApiError (error_message res) (status res) (error_data res)))"
  using assms by (simp add: try_block_def)


lemma try_block_rejected:
  assumes "withTimeout (fetch plat k url ini) tmo = Rejects t e"
  shows "try_block parse plat url ini tmo n backoff retry_on attempt k = Throw e"
  using assms by (simp add: try_block_def)

text \<open>
  What the \<open>catch\<close> block does with a value named \<open>AbortError\<close> or shaped like an
  \<open>ApiError\<close>: it throws it on at once, whatever the remaining attempts. Such a value
  reaches the \<open>catch\<close> block when the transport rejects with it
  (\<open>try_block_rejected\<close>), when a body reader of a successful response rejects with
  it, or as the \<open>ApiError\<close> built from a response that is not retried. It does not
  reach it from the body reader of a response that is not ok.
\<close>

lemma catch_rethrows_abort_or_ApiError:
  assumes "attempt \<le> n"
    and "try_block parse plat url ini tmo n backoff retry_on attempt k = Throw e"
    and "isAbortError e \<or> isApiErrorLike e"
  shows "attempt_loop parse plat url ini tmo n backoff retry_on attempt le k
         = (RejectedWith e, [Fetch url ini])"
  using assms by (subst attempt_loop.simps) auto

lemma request_built:
  assumes "buildUrl plat c (path opts) (query opts) = Inr url"
  shows "request parse plat c opts
         = attempt_loop parse plat url (build_init c opts) (Some (timeout_or_default opts))
             (retry_attempts (retry opts)) (retry_backoffMs (retry opts))
             (retry_retryOn (retry opts)) 1 None 0"
  using assms by (simp add: request_def)

lemma retry_attempts_ge_1: "1 \<le> retry_attempts r"
  by (simp add: retry_attempts_def)

lemma request_no_FellThrough: "FellThrough \<notin> set (snd (request parse plat c opts))"
proof (cases "buildUrl plat c (path opts) (query opts)")
  case (Inl e)
  then show ?thesis by (simp add: request_def)
next
  case (Inr url)
  from request_built [OF Inr] attempt_loop_no_FellThrough [OF retry_attempts_ge_1]
  show ?thesis by simp
qed

lemma request_same_call:
  assumes "Fetch u i \<in> set (snd (request parse plat c opts))"
  shows "buildUrl plat c (path opts) (query opts) = Inr u \<and> i = build_init c opts"
proof (cases "buildUrl plat c (path opts) (query opts)")
  case (Inl e)
  with assms show ?thesis by (simp add: request_def)
next
  case (Inr url)
  from assms request_built [OF Inr] attempt_loop_same_call Inr show ?thesis by metis
qed

text \<open>
  C9. With \<open>attempts\<close> zero or negative the call behaves as with \<open>attempts: 1\<close>; once
  the URL is built it invokes the transport exactly once, waits for no backoff, and
  never reaches the \<open>throw\<close> after the loop.
\<close>

theorem nonpositive_attempts_one_attempt:
  assumes "a \<le> 0"
  shows "request parse plat c (opts\<lparr>retry := Some (ro\<lparr>attempts := Some a\<rparr>)\<rparr>)
         = request parse plat c (opts\<lparr>retry := Some (ro\<lparr>attempts := Some 1\<rparr>)\<rparr>)
       \<and> (\<forall>url. buildUrl plat c (path opts) (query opts) = Inr url \<longrightarrow>
             snd (request parse plat c (opts\<lparr>retry := Some (ro\<lparr>attempts := Some a\<rparr>)\<rparr>))
             = [Fetch url (build_init c opts)]
             \<and> transport_calls
                 (snd (request parse plat c (opts\<lparr>retry := Some (ro\<lparr>attempts := Some a\<rparr>)\<rparr>))) = 1)
       \<and> FellThrough \<notin> set (snd (request parse plat c (opts\<lparr>retry := Some (ro\<lparr>attempts := Some a\<rparr>)\<rparr>)))"
proof -
  let ?o = "opts\<lparr>retry := Some (ro\<lparr>attempts := Some a\<rparr>)\<rparr>"
  let ?o1 = "opts\<lparr>retry := Some (ro\<lparr>attempts := Some 1\<rparr>)\<rparr>"
  have n: "retry_attempts (Some (ro\<lparr>attempts := Some a\<rparr>)) = 1"
    using assms by (simp add: retry_attempts_def)
  have n1: "retry_attempts (Some (ro\<lparr>attempts := Some 1\<rparr>)) = 1"
    by (simp add: retry_attempts_def)
  have bi: "build_init c ?o = build_init c opts" "build_init c ?o1 = build_init c opts"
    by (simp_all add: build_init_def method_or_default_def)
  have eq: "request parse plat c ?o = request parse plat c ?o1"
    unfolding request_def bi
    by (simp add: n n1 timeout_or_default_def retry_backoffMs_def retry_retryOn_def
          split: sum.splits)
  have one: "\<forall>url. buildUrl plat c (path opts) (query opts) = Inr url \<longrightarrow>
             snd (request parse plat c ?o) = [Fetch url (build_init c opts)]
             \<and> transport_calls (snd (request parse plat c ?o)) = 1"
  proof (intro allI impI)
    fix url assume "buildUrl plat c (path opts) (query opts) = Inr url"
    then have "buildUrl plat c (path ?o) (query ?o) = Inr url" by simp
    from request_built [OF this]
    have "request parse plat c ?o
          = attempt_loop parse plat url (build_init c opts) (Some (timeout_or_default ?o))
              1 (retry_backoffMs (retry ?o)) (retry_retryOn (retry ?o)) 1 None 0"
      unfolding bi by (simp add: n)
    then have "snd (request parse plat c ?o) = [Fetch url (build_init c opts)]"
      by (simp add: attempt_loop_last)
    then show "snd (request parse plat c ?o) = [Fetch url (build_init c opts)]
             \<and> transport_calls (snd (request parse plat c ?o)) = 1"
      by (simp add: transport_calls_def)
  qed
  from eq one request_no_FellThrough show ?thesis by blast
qed

text \<open>
  C8. For the verb GET (given, or taken by default) the options passed to the
  transport have no body, whatever body the caller supplied, in every transport
  invocation of the call.
\<close>

theorem GET_never_has_body:
  assumes "method_or_default opts = GET"
  shows "init_body (build_init c opts) = None
       \<and> (\<forall>u i. Fetch u i \<in> set (snd (request parse plat c opts)) \<longrightarrow> init_body i = None)"
proof -
  have b: "init_body (build_init c opts) = None"
    using assms by (simp add: build_init_def Let_def split: option.splits)
  with request_same_call show ?thesis by blast
qed

lemma build_init_Authorization:
  "init_headers (build_init c opts) ''Authorization'' = mergedHeaders c (headers opts) ''Authorization''"
  by (simp add: build_init_def Let_def split: option.splits)

text \<open>
  The entry \<open>Authorization\<close> of the header record. A call made after \<open>setAuth('')\<close> is
  the call made after \<open>setAuth(null)\<close>; in both cases the entry is what the per-call
  headers or the defaults give, nothing comes from the token. After \<open>setAuth(T)\<close> with
  a non-empty \<open>T\<close> the entry is \<open>Bearer T\<close> unless the per-call headers have a key
  spelled \<open>Authorization\<close>, which then replaces it.
\<close>

lemma Authorization_entry:
  "request parse plat (setAuth (Some []) c) opts = request parse plat (setAuth None c) opts
   \<and> (tok = None \<or> tok = Some [] \<longrightarrow>
        init_headers (build_init (setAuth tok c) opts) ''Authorization''
        = (case headers opts of
             None \<Rightarrow> defaultHeaders c ''Authorization''
           | Some h \<Rightarrow> (case h ''Authorization'' of
                          None \<Rightarrow> defaultHeaders c ''Authorization''
                        | Some v \<Rightarrow> Some v)))
   \<and> (T \<noteq> [] \<longrightarrow>
        init_headers (build_init (setAuth (Some T) c) opts) ''Authorization''
        = (case headers opts of
             None \<Rightarrow> Some (''Bearer '' @ T)
           | Some h \<Rightarrow> (case h ''Authorization'' of
                          None \<Rightarrow> Some (''Bearer '' @ T)
                        | Some v \<Rightarrow> Some v)))
   \<and> (\<forall>u i. Fetch u i \<in> set (snd (request parse plat (setAuth tok c) opts))
          \<longrightarrow> i = build_init (setAuth tok c) opts)"
proof -
  have mh: "mergedHeaders (setAuth (Some []) c) hs = mergedHeaders (setAuth None c) hs" for hs
    by (simp add: mergedHeaders_def auth_header_def setAuth_def)
  have bi: "build_init (setAuth (Some []) c) opts = build_init (setAuth None c) opts"
    by (simp add: build_init_def mh)
  have bu: "buildUrl plat (setAuth (Some []) c) p q = buildUrl plat (setAuth None c) p q" for p q
    by (simp add: buildUrl_def setAuth_def)
  have a: "request parse plat (setAuth (Some []) c) opts = request parse plat (setAuth None c) opts"
    by (simp add: request_def bi bu split: sum.splits)
  have b: "tok = None \<or> tok = Some [] \<longrightarrow>
        init_headers (build_init (setAuth tok c) opts) ''Authorization''
        = (case headers opts of
             None \<Rightarrow> defaultHeaders c ''Authorization''
           | Some h \<Rightarrow> (case h ''Authorization'' of
                          None \<Rightarrow> defaultHeaders c ''Authorization''
                        | Some v \<Rightarrow> Some v))"
    by (auto simp: build_init_Authorization mergedHeaders_def auth_header_def setAuth_def
          map_add_def split: option.splits)
  have d: "T \<noteq> [] \<longrightarrow>
        init_headers (build_init (setAuth (Some T) c) opts) ''Authorization''
        = (case headers opts of
             None \<Rightarrow> Some (''Bearer '' @ T)
           | Some h \<Rightarrow> (case h ''Authorization'' of
                          None \<Rightarrow> Some (''Bearer '' @ T)
                        | Some v \<Rightarrow> Some v))"
    by (auto simp: build_init_Authorization mergedHeaders_def auth_header_def setAuth_def
          map_add_def split: option.splits)
  have e: "\<forall>u i. Fetch u i \<in> set (snd (request parse plat (setAuth tok c) opts))
          \<longrightarrow> i = build_init (setAuth tok c) opts"
    using request_same_call by blast
  from a b d e show ?thesis by blast
qed

lemma timer_delay_le: "0 < N \<Longrightarrow> timer_delay N \<le> N"
  by (simp add: timer_delay_def)

lemma settles_within_mono: "settles_within a p \<Longrightarrow> a \<le> b \<Longrightarrow> settles_within b p"
  by (cases p) auto

lemma try_block_timed_out:
  assumes "0 < N" and "\<not> settles_within N (fetch plat k url ini)"
  shows "try_block parse plat url ini (Some N) n backoff retry_on attempt k = Throw (timeout_error N)"
proof -
  from assms have "\<not> settles_within (timer_delay N) (fetch plat k url ini)"
    using settles_within_mono [OF _ timer_delay_le] by blast
  with assms(1) show ?thesis by (simp add: try_block_def withTimeout_def)
qed

lemma timeout_error_retryable: "\<not> isApiErrorLike (timeout_error N) \<and> \<not> isAbortError (timeout_error N)"
  by (simp add: timeout_error_def)

text \<open>
  C3, as the code has it. A duration of zero (or below) disables the guard: the
  attempt settles as the transport does. So does an absent duration in \<open>withTimeout\<close>
  itself, but \<open>request\<close> never passes one: an absent \<open>timeoutMs\<close> is the default of
  15000 ms, with the guard on. For a positive duration \<open>N\<close>, an attempt whose transport
  call does not settle within \<open>N\<close> ms is rejected with an \<open>Error\<close> whose message is
  \<open>Request timed out after Nms\<close>, \<open>N\<close> as a template literal prints it (its decimal
  digits below \<open>2^53\<close>); the transport was invoked once for it. That rejection is what
  the caller receives when no attempt is left, and it is retried after the backoff
  otherwise. A transport call that settles within \<open>N\<close> ms, for \<open>N\<close> up to \<open>2^31 - 1\<close>,
  passes the guard.
\<close>

theorem timeout_guard:
  "(ms \<le> 0 \<longrightarrow> withTimeout p (Some ms) = p)
   \<and> withTimeout p None = p
   \<and> request parse plat c (opts\<lparr>timeoutMs := None\<rparr>)
     = request parse plat c (opts\<lparr>timeoutMs := Some 15000\<rparr>)
   \<and> (0 < N \<and> \<not> settles_within N (fetch plat k url ini) \<and> attempt \<le> n \<longrightarrow>
        try_block parse plat url ini (Some N) n backoff retry_on attempt k
        = Throw (ErrorObject True ''Error'' (''Request timed out after '' @ number_text N @ ''ms'') None)
      \<and> attempt_loop parse plat url ini (Some N) n backoff retry_on attempt le k
        = (if attempt < n
           then after [Fetch url ini, Sleep (backoff_delay backoff attempt)]
                  (attempt_loop parse plat url ini (Some N) n backoff retry_on (attempt + 1)
                     (Some (timeout_error N)) (Suc k))
           else (RejectedWith (ErrorObject True ''Error''
                    (''Request timed out after '' @ number_text N @ ''ms'') None), [Fetch url ini])))
   \<and> (0 \<le> N \<and> N < 9007199254740992 \<longrightarrow> number_text N = show_nat (nat N))
   \<and> (0 < N \<and> N \<le> 2147483647 \<and> settles_within N p \<longrightarrow> withTimeout p (Some N) = p)"
proof -
  have a: "ms \<le> 0 \<longrightarrow> withTimeout p (Some ms) = p"
    by (simp add: withTimeout_def)
  have a': "withTimeout p None = p"
    by (simp add: withTimeout_def)
  have bi: "build_init c (opts\<lparr>timeoutMs := None\<rparr>) = build_init c (opts\<lparr>timeoutMs := Some 15000\<rparr>)"
    by (simp add: build_init_def method_or_default_def)
  have b: "request parse plat c (opts\<lparr>timeoutMs := None\<rparr>)
           = request parse plat c (opts\<lparr>timeoutMs := Some 15000\<rparr>)"
    unfolding request_def bi by (simp add: timeout_or_default_def split: sum.splits)
  have d: "try_block parse plat url ini (Some N) n backoff retry_on attempt k
        = Throw (ErrorObject True ''Error'' (''Request timed out after '' @ number_text N @ ''ms'') None)
      \<and> attempt_loop parse plat url ini (Some N) n backoff retry_on attempt le k
        = (if attempt < n
           then after [Fetch url ini, Sleep (backoff_delay backoff attempt)]
                  (attempt_loop parse plat url ini (Some N) n backoff retry_on (attempt + 1)
                     (Some (timeout_error N)) (Suc k))
           else (RejectedWith (ErrorObject True ''Error''
                    (''Request timed out after '' @ number_text N @ ''ms'') None), [Fetch url ini]))"
    if h: "0 < N" "\<not> settles_within N (fetch plat k url ini)" "attempt \<le> n"
  proof -
    note tb = try_block_timed_out [OF h(1,2), of parse n backoff retry_on attempt]
    show ?thesis
    proof (cases "attempt < n")
      case True
      from attempt_loop_Throw_retry [OF True tb] timeout_error_retryable tb True
      show ?thesis by (simp add: timeout_error_def)
    next
      case False
      from attempt_loop_Throw_final [OF h(3) tb] tb False
      show ?thesis by (simp add: timeout_error_def)
    qed
  qed
  have e: "0 \<le> N \<and> N < 9007199254740992 \<longrightarrow> number_text N = show_nat (nat N)"
  proof
    assume h: "0 \<le> N \<and> N < 9007199254740992"
    then have "nat N < 9007199254740992" by arith
    with h show "number_text N = show_nat (nat N)"
      by (simp only: number_text_def nat_text_def if_True if_False not_less [symmetric])
  qed
  have f: "0 < N \<and> N \<le> 2147483647 \<and> settles_within N p \<longrightarrow> withTimeout p (Some N) = p"
    by (simp add: withTimeout_def timer_delay_def)
  from a a' b d e f show ?thesis by blast
qed

lemma has_message_map_of: "has_message (JObj kvs) \<longleftrightarrow> map_of kvs ''message'' \<noteq> None"
  by (simp add: map_of_eq_None_iff)

lemma message_from_json_Some:
  "message_from_json res = Some m \<longleftrightarrow>
     error_isJson res \<and> (\<exists>kvs. error_data res = JObj kvs \<and> map_of kvs ''message'' = Some (JStr m))"
proof (cases "error_data res")
  case (JObj kvs)
  then show ?thesis
    by (auto simp: message_from_json_def Let_def has_message_map_of
          simp del: has_message.simps split: option.splits jsvalue.splits)
qed (simp_all add: message_from_json_def Let_def)

text \<open>
  C5, as the code has it. A response that is not ok and is not retried is thrown as an
  \<open>ApiError\<close> with the status and the decoded payload of the response (undefined when
  the reader rejected). Its message is the non-empty string \<open>message\<close> property of a
  payload declared and decoded as a JSON object; failing that, the payload itself when
  it is a string (the text of a body not declared JSON, or a JSON string), and
  \<open>HTTP status\<close> when that string is empty; failing that (the payload is not a
  string), the status text, and \<open>HTTP status\<close> when the status text is empty.
\<close>

theorem error_message_sources:
  assumes "withTimeout (fetch plat k url ini) tmo = Fulfils t res"
    and "\<not> ok res"
    and "\<not> (attempt < n \<and> status res \<in> set retry_on)"
  shows "try_block parse plat url ini tmo n backoff retry_on attempt k
         = Throw (ApiError (error_message res) (status res) (error_data res))
       \<and> (\<forall>kvs m. error_isJson res \<and> error_data res = JObj kvs
                   \<and> map_of kvs ''message'' = Some (JStr m) \<and> m \<noteq> []
                   \<longrightarrow> error_message res = m)
       \<and> (\<not> (\<exists>kvs m. error_isJson res \<and> error_data res = JObj kvs
                   \<and> map_of kvs ''message'' = Some (JStr m) \<and> m \<noteq> [])
            \<longrightarrow> error_message res
                = (case error_data res of
                     JStr s \<Rightarrow> if s \<noteq> [] then s else ''HTTP '' @ show_nat (status res)
                   | _ \<Rightarrow> if statusText res \<noteq> [] then statusText res
                          else ''HTTP '' @ show_nat (status res)))
       \<and> error_data res
         = (if error_isJson res
            then (case json_result res of Inl e \<Rightarrow> JUndefined | Inr v \<Rightarrow> v)
            else (case text_result res of Inl e \<Rightarrow> JUndefined | Inr s \<Rightarrow> JStr s))"
proof -
  have a: "try_block parse plat url ini tmo n backoff retry_on attempt k
         = Throw (ApiError (error_message res) (status res) (error_data res))"
    using try_block_failed_response [OF assms(1,2)] assms(3) by simp
  have b: "\<forall>kvs m. error_isJson res \<and> error_data res = JObj kvs
                   \<and> map_of kvs ''message'' = Some (JStr m) \<and> m \<noteq> []
                   \<longrightarrow> error_message res = m"
  proof (intro allI impI)
    fix kvs m
    assume h: "error_isJson res \<and> error_data res = JObj kvs
                   \<and> map_of kvs ''message'' = Some (JStr m) \<and> m \<noteq> []"
    then have "message_from_json res = Some m" using message_from_json_Some by blast
    with h show "error_message res = m"
      by (simp add: error_message_def message_or_fallback_def falsy_message_def or_empty_def)
  qed
  have d: "error_message res
                = (case error_data res of
                     JStr s \<Rightarrow> if s \<noteq> [] then s else ''HTTP '' @ show_nat (status res)
                   | _ \<Rightarrow> if statusText res \<noteq> [] then statusText res
                          else ''HTTP '' @ show_nat (status res))"
    if h: "\<not> (\<exists>kvs m. error_isJson res \<and> error_data res = JObj kvs
                   \<and> map_of kvs ''message'' = Some (JStr m) \<and> m \<noteq> [])"
  proof -
    have "falsy_message (message_from_json res)"
    proof (cases "message_from_json res")
      case None
      then show ?thesis by (simp add: falsy_message_def)
    next
      case (Some m)
      with h message_from_json_Some [of res m] have "m = []" by blast
      with Some show ?thesis by (simp add: falsy_message_def)
    qed
    then show ?thesis
      by (simp add: error_message_def message_or_fallback_def Let_def split: jsvalue.splits)
  qed
  have e: "error_data res
         = (if error_isJson res
            then (case json_result res of Inl e \<Rightarrow> JUndefined | Inr v \<Rightarrow> v)
            else (case text_result res of Inl e \<Rightarrow> JUndefined | Inr s \<Rightarrow> JStr s))"
    by (simp add: error_data_def)
  from a b d e show ?thesis by blast
qed

text \<open>
  C4, as the code has it. An attempt that obtained a response returns a payload exactly
  when the status is in 200-299 and the chosen reader of the body succeeds; when the
  reader rejects, its error is thrown into the \<open>catch\<close> block like a transport failure.
  The reader is chosen by what the content type contains, in this order: the JSON media
  type gives \<open>json()\<close>, and otherwise \<open>src/lib/api-client.ts\<close> reads \<open>text()\<close>, while
  \<open>parseResponse\<close> of the extended revision reads \<open>blob()\<close> for octet-stream, image,
  video, audio and PDF, \<open>formData()\<close> for multipart form data, and \<open>text()\<close> for
  anything else.
\<close>

theorem success_decoding:
  assumes "withTimeout (fetch plat k url ini) tmo = Fulfils t res"
  shows "((\<exists>v. try_block parse plat url ini tmo n backoff retry_on attempt k = Return v)
            \<longleftrightarrow> (200 \<le> status res \<and> status res \<le> 299) \<and> (\<exists>v. parse res = Inr v))
       \<and> (200 \<le> status res \<and> status res \<le> 299 \<longrightarrow>
            try_block parse plat url ini tmo n backoff retry_on attempt k
            = (case parse res of Inl e \<Rightarrow> Throw e | Inr v \<Rightarrow> Return v))
       \<and> (str_includes (or_empty (content_type res)) ''application/json'' \<longrightarrow>
            parseResponse res = awaited FromJson (json_result res)
            \<and> parseJsonOrText res = awaited FromJson (json_result res))
       \<and> (\<not> str_includes (or_empty (content_type res)) ''application/json'' \<longrightarrow>
            parseJsonOrText res = awaited FromText (text_result res)
            \<and> parseResponse res
              = (if str_includes (or_empty (content_type res)) ''application/octet-stream''
                    \<or> str_includes (or_empty (content_type res)) ''image/''
                    \<or> str_includes (or_empty (content_type res)) ''video/''
                    \<or> str_includes (or_empty (content_type res)) ''audio/''
                    \<or> str_includes (or_empty (content_type res)) ''application/pdf''
                 then awaited FromBlob (blob_result res)
                 else if str_includes (or_empty (content_type res)) ''multipart/form-data''
                 then awaited FromFormData (formData_result res)
                 else awaited FromText (text_result res)))"
proof -
  have a: "(\<exists>v. try_block parse plat url ini tmo n backoff retry_on attempt k = Return v)
            \<longleftrightarrow> (200 \<le> status res \<and> status res \<le> 299) \<and> (\<exists>v. parse res = Inr v)"
    using assms by (auto simp: try_block_def ok_def split: sum.splits)
  have b: "200 \<le> status res \<and> status res \<le> 299 \<longrightarrow>
            try_block parse plat url ini tmo n backoff retry_on attempt k
            = (case parse res of Inl e \<Rightarrow> Throw e | Inr v \<Rightarrow> Return v)"
    using assms by (simp add: try_block_def ok_def)
  have d: "str_includes (or_empty (content_type res)) ''application/json'' \<longrightarrow>
            parseResponse res = awaited FromJson (json_result res)
            \<and> parseJsonOrText res = awaited FromJson (json_result res)"
    by (simp add: parseResponse_def parseJsonOrText_def)
  have e: "\<not> str_includes (or_empty (content_type res)) ''application/json'' \<longrightarrow>
            parseJsonOrText res = awaited FromText (text_result res)
            \<and> parseResponse res
              = (if str_includes (or_empty (content_type res)) ''application/octet-stream''
                    \<or> str_includes (or_empty (content_type res)) ''image/''
                    \<or> str_includes (or_empty (content_type res)) ''video/''
                    \<or> str_includes (or_empty (content_type res)) ''audio/''
                    \<or> str_includes (or_empty (content_type res)) ''application/pdf''
                 then awaited FromBlob (blob_result res)
                 else if str_includes (or_empty (content_type res)) ''multipart/form-data''
                 then awaited FromFormData (formData_result res)
                 else awaited FromText (text_result res))"
    by (simp add: parseResponse_def parseJsonOrText_def Let_def)
  from a b d e show ?thesis by blast
qed

text \<open>
  The multipart branch passes the body on as it is and removes the key \<open>Content-Type\<close>
  from the headers.
\<close>

lemma multipart_body_unmodified:
  assumes "method_or_default opts \<noteq> GET" and "body opts = Some b" and "isMultipartLike b"
  shows "init_body (build_init c opts) = Some (Unmodified b)
       \<and> init_headers (build_init c opts) ''Content-Type'' = None
       \<and> init_headers (build_init c opts)
         = (mergedHeaders c (headers opts))(''Content-Type'' := None)"
proof -
  from assms(3) have "b \<noteq> ValueBody JUndefined" by auto
  with assms show ?thesis by (simp add: build_init_def Let_def)
qed

subsection \<open>The claims on the scenarios of the test suite\<close>



text \<open>
  C6 does not hold of the code. The caller aborts while the body of a 503 is being
  read: \<open>res.json()\<close> rejects with the \<open>AbortError\<close>, \<open>.catch(() => undefined)\<close>
  swallows it, and, 503 being retryable and \<open>attempts\<close> being 2, the client waits the
  backoff and invokes the transport a second time before the cancellation reaches the
  caller.
\<close>

theorem swallowed_abort_is_retried:
  "json_result res_503_aborted = Inl AbortError
   \<and> isAbortError AbortError
   \<and> request parseResponse
       (test_platform (\<lambda>k. if k = 0 then Fulfils 5 res_503_aborted else Rejects 0 AbortError))
       (new_client []) ((call GET ''/rooms'')\<lparr>retry := Some (retry_with 2)\<rparr>)
     = (RejectedWith AbortError,
        [Fetch ''http://localhost/rooms'' (build_init (new_client []) (call GET ''/rooms'')),
         Sleep 300,
         Fetch ''http://localhost/rooms'' (build_init (new_client []) (call GET ''/rooms''))])
   \<and> transport_calls (snd (request parseResponse
       (test_platform (\<lambda>k. if k = 0 then Fulfils 5 res_503_aborted else Rejects 0 AbortError))
       (new_client []) ((call GET ''/rooms'')\<lparr>retry := Some (retry_with 2)\<rparr>))) = 2"
  by (simp add: model_defs fixture_defs attempt_loop.simps transport_calls_def)

text \<open>C9 with \<open>attempts: 0\<close> and a 500 response.\<close>

theorem nonpositive_attempts_one_attempt_witness:
  "request parseResponse (test_platform (\<lambda>k. Fulfils 5 res_500_busy)) (new_client [])
     ((call GET ''/x'')\<lparr>retry := Some ((retry_with 2)\<lparr>attempts := Some 0\<rparr>)\<rparr>)
   = (RejectedWith (ApiError ''HTTP 500'' 500 (JObj [(''error'', JStr ''server busy'')])),
      [Fetch ''http://localhost/x'' (build_init (new_client []) (call GET ''/x''))])
   \<and> request parseResponse (test_platform (\<lambda>k. Fulfils 5 res_500_busy)) (new_client [])
     ((call GET ''/x'')\<lparr>retry := Some ((retry_with 2)\<lparr>attempts := Some 0\<rparr>)\<rparr>)
   = request parseResponse (test_platform (\<lambda>k. Fulfils 5 res_500_busy)) (new_client [])
     ((call GET ''/x'')\<lparr>retry := Some ((retry_with 2)\<lparr>attempts := Some 1\<rparr>)\<rparr>)
   \<and> transport_calls (snd (request parseResponse (test_platform (\<lambda>k. Fulfils 5 res_500_busy))
        (new_client []) ((call GET ''/x'')\<lparr>retry := Some ((retry_with 2)\<lparr>attempts := Some 0\<rparr>)\<rparr>)))
     = 1"
proof -
  have z: "(0::int) \<le> 0" by simp
  note t = nonpositive_attempts_one_attempt
      [OF z, where parse = parseResponse
         and plat = "test_platform (\<lambda>k. Fulfils 5 res_500_busy)"
         and c = "new_client []" and opts = "call GET ''/x''" and ro = "retry_with 2"]
  have r: "request parseResponse (test_platform (\<lambda>k. Fulfils 5 res_500_busy)) (new_client [])
     ((call GET ''/x'')\<lparr>retry := Some ((retry_with 2)\<lparr>attempts := Some 1\<rparr>)\<rparr>)
   = (RejectedWith (ApiError ''HTTP 500'' 500 (JObj [(''error'', JStr ''server busy'')])),
      [Fetch ''http://localhost/x'' (build_init (new_client []) (call GET ''/x''))])"
    by (simp add: model_defs fixture_defs attempt_loop.simps show_nat.simps digit_char_def)
  from t r show ?thesis by (simp add: transport_calls_def)
qed

text \<open>
  C8 for a GET call that was given a body; the same body under POST is sent.
\<close>

theorem GET_never_has_body_witness:
  "init_body (build_init (new_client [])
      ((call GET ''/never-has-body'')\<lparr>body := Some (ValueBody (JObj [(''foo'', JStr ''bar'')]))\<rparr>))
   = None
   \<and> init_body (build_init (new_client [])
      ((call POST ''/json'')\<lparr>body := Some (ValueBody (JObj [(''foo'', JStr ''bar'')]))\<rparr>))
   = Some (Stringified (ValueBody (JObj [(''foo'', JStr ''bar'')])))"
proof -
  have g: "method_or_default
      ((call GET ''/never-has-body'')\<lparr>body := Some (ValueBody (JObj [(''foo'', JStr ''bar'')]))\<rparr>)
      = GET"
    by (simp add: method_or_default_def call_def)
  have p: "init_body (build_init (new_client [])
      ((call POST ''/json'')\<lparr>body := Some (ValueBody (JObj [(''foo'', JStr ''bar'')]))\<rparr>))
   = Some (Stringified (ValueBody (JObj [(''foo'', JStr ''bar'')])))"
    by (simp add: model_defs fixture_defs)
  from GET_never_has_body [OF g, of "new_client []" parseResponse "test_platform (\<lambda>k. Never)"] p
  show ?thesis by simp
qed

lemma header_values_two_spellings: "header_values [''Content-Type'' \<mapsto> ''application/json'',
                     ''Authorization'' \<mapsto> ''Bearer shhh-token'',
                     ''authorization'' \<mapsto> ''Basic abc''] ''Authorization''
     = {''Bearer shhh-token'', ''Basic abc''}"
proof -
  define kC kA ka vJ vB vb :: string
    where "kC = ''Content-Type''" and "kA = ''Authorization''" and "ka = ''authorization''"
      and "vJ = ''application/json''" and "vB = ''Bearer shhh-token''" and "vb = ''Basic abc''"
  define H :: headers where "H = [kC \<mapsto> vJ, kA \<mapsto> vB, ka \<mapsto> vb]"
  have la: "lower kA = lower ka" and lc: "lower kC \<noteq> lower kA"
    by (simp_all add: kA_def ka_def kC_def lower_def lower_char_def)
  have ne: "kA \<noteq> ka" by (simp add: kA_def ka_def)
  have HA: "H kA = Some vB" using ne by (simp add: H_def)
  have Ha: "H ka = Some vb" by (simp add: H_def)
  have sub: "x = vB \<or> x = vb" if "H k = Some x" and "lower k = lower kA" for k x
  proof (cases "k = ka")
    case True
    with that(1) Ha show ?thesis by simp
  next
    case False
    show ?thesis
    proof (cases "k = kA")
      case True
      with that(1) HA show ?thesis by simp
    next
      case nA: False
      have "k \<noteq> kC" using that(2) lc by auto
      with False nA have "H k = None" by (simp add: H_def)
      with that(1) show ?thesis by simp
    qed
  qed
  have "header_values H kA = {vB, vb}"
  proof (rule set_eqI)
    fix x
    show "x \<in> header_values H kA \<longleftrightarrow> x \<in> {vB, vb}"
    proof
      assume "x \<in> header_values H kA"
      then obtain k where "H k = Some x" and "lower k = lower kA"
        unfolding header_values_def by auto
      from sub [OF this] show "x \<in> {vB, vb}" by simp
    next
      assume "x \<in> {vB, vb}"
      then have "x = vB \<or> x = vb" by simp
      then show "x \<in> header_values H kA"
      proof
        assume "x = vB"
        with HA have "H kA = Some x \<and> lower kA = lower kA" by simp
        then show ?thesis unfolding header_values_def by (intro CollectI exI)
      next
        assume "x = vb"
        with Ha la have "H ka = Some x \<and> lower ka = lower kA" by simp
        then show ?thesis unfolding header_values_def by (intro CollectI exI)
      qed
    qed
  qed
  then show ?thesis
    unfolding H_def kC_def kA_def ka_def vJ_def vB_def vb_def .
qed

text \<open>
  C10 does not hold of the code. After \<open>setAuth('shhh-token')\<close> a call with the
  per-call header \<open>authorization: 'Basic abc'\<close> reaches the transport with both
  entries: the per-call header does not replace the one of the token, and the
  transport reads two values under \<open>Authorization\<close>.
\<close>

theorem lower_case_authorization_does_not_replace:
  "request parseResponse (test_platform (\<lambda>k. Fulfils 5 res_200_ok))
     (setAuth (Some ''shhh-token'') (new_client []))
     ((call GET ''/me'')\<lparr>headers := Some [''authorization'' \<mapsto> ''Basic abc'']\<rparr>)
   = (Resolved (FromJson (JObj [(''ok'', JBool True)])),
      [Fetch ''http://localhost/me''
         \<lparr>init_method = GET,
          init_headers = [''Content-Type'' \<mapsto> ''application/json'',
                          ''Authorization'' \<mapsto> ''Bearer shhh-token'',
                          ''authorization'' \<mapsto> ''Basic abc''],
          init_signal = None, init_cache = None, init_next = None, init_body = None\<rparr>])
   \<and> header_values [''Content-Type'' \<mapsto> ''application/json'',
                     ''Authorization'' \<mapsto> ''Bearer shhh-token'',
                     ''authorization'' \<mapsto> ''Basic abc''] ''Authorization''
     = {''Bearer shhh-token'', ''Basic abc''}"
proof -
  have r: "request parseResponse (test_platform (\<lambda>k. Fulfils 5 res_200_ok))
     (setAuth (Some ''shhh-token'') (new_client []))
     ((call GET ''/me'')\<lparr>headers := Some [''authorization'' \<mapsto> ''Basic abc'']\<rparr>)
   = (Resolved (FromJson (JObj [(''ok'', JBool True)])),
      [Fetch ''http://localhost/me''
         \<lparr>init_method = GET,
          init_headers = [''Content-Type'' \<mapsto> ''application/json'',
                          ''Authorization'' \<mapsto> ''Bearer shhh-token'',
                          ''authorization'' \<mapsto> ''Basic abc''],
          init_signal = None, init_cache = None, init_next = None, init_body = None\<rparr>])"
    by (simp add: model_defs fixture_defs attempt_loop.simps)
  from r header_values_two_spellings show ?thesis by (rule conjI)
qed

text \<open>
  C3 on the test of the suite (a transport that never settles, \<open>timeoutMs: 25\<close>), the
  same call with \<open>timeoutMs: 0\<close>, which never settles, and a transport that settles in
  the millisecond of the deadline.
\<close>

theorem timeout_guard_witness:
  "request parseResponse (test_platform (\<lambda>k. Never)) (new_client [])
     ((call GET ''/hangs'')\<lparr>timeoutMs := Some 25\<rparr>)
   = (RejectedWith (ErrorObject True ''Error'' ''Request timed out after 25ms'' None),
      [Fetch ''http://localhost/hangs'' (build_init (new_client []) (call GET ''/hangs''))])
   \<and> request parseResponse (test_platform (\<lambda>k. Never)) (new_client [])
     ((call GET ''/hangs'')\<lparr>timeoutMs := Some 0\<rparr>)
   = (Unsettled,
      [Fetch ''http://localhost/hangs'' (build_init (new_client []) (call GET ''/hangs''))])
   \<and> withTimeout (Fulfils 25 res_200_ok) (Some 25) = Fulfils 25 res_200_ok"
proof -
  have u: "request parseResponse (test_platform (\<lambda>k. Never)) (new_client [])
     ((call GET ''/hangs'')\<lparr>timeoutMs := Some 0\<rparr>)
   = (Unsettled,
      [Fetch ''http://localhost/hangs'' (build_init (new_client []) (call GET ''/hangs''))])"
    by (simp add: model_defs fixture_defs attempt_loop.simps)
  have sh: "show_nat 25 = ''25''"
    by (simp add: show_nat.simps digit_char_def)
  from timeout_guard
      [where ms = 0 and N = 25 and plat = "test_platform (\<lambda>k. Never)" and k = 0
         and url = "''http://localhost/hangs''"
         and ini = "build_init (new_client []) (call GET ''/hangs'')"
         and attempt = 1 and n = 1 and parse = parseResponse and backoff = 300
         and retry_on = default_retryOn and le = None
         and c = "new_client []" and opts = "call GET ''/hangs''"
         and p = "Fulfils 25 res_200_ok"] u sh
  show ?thesis
    by (simp add: model_defs fixture_defs attempt_loop.simps)
qed

text \<open>
  C3 as stated fails for an absent duration: a call without \<open>timeoutMs\<close> whose
  transport never settles is rejected by the guard, with the default of 15000 ms.
\<close>

theorem absent_timeout_is_default:
  "request parseResponse (test_platform (\<lambda>k. Never)) (new_client []) (call GET ''/hangs'')
   = (RejectedWith (ErrorObject True ''Error'' ''Request timed out after 15000ms'' None),
      [Fetch ''http://localhost/hangs'' (build_init (new_client []) (call GET ''/hangs''))])
   \<and> timeoutMs (call GET ''/hangs'') = None"
  by (simp add: model_defs fixture_defs attempt_loop.simps show_nat.simps digit_char_def)

text \<open>
  C5 on the tests: the \<open>message\<close> of a JSON payload; a JSON payload without \<open>message\<close>
  and an empty status text; the same with a status text.
\<close>

theorem error_message_sources_witness:
  "request parseResponse (test_platform (\<lambda>k. Fulfils 5 res_400_bad)) (new_client [])
     (call GET ''/oops'')
   = (RejectedWith (ApiError ''Bad stuff happened'' 400
                      (JObj [(''message'', JStr ''Bad stuff happened'')])),
      [Fetch ''http://localhost/oops'' (build_init (new_client []) (call GET ''/oops''))])
   \<and> error_message res_404_nope = ''HTTP 404''
   \<and> error_message (res_404_nope\<lparr>statusText := ''Not Found''\<rparr>) = ''Not Found''"
  using error_message_sources
      [where plat = "test_platform (\<lambda>k. Fulfils 5 res_400_bad)" and k = 0
         and url = "''http://localhost/oops''"
         and ini = "build_init (new_client []) (call GET ''/oops'')"
         and tmo = "Some 15000" and t = 5 and res = res_400_bad and attempt = 1 and n = 1
         and parse = parseResponse and backoff = 300 and retry_on = default_retryOn]
    error_message_sources
      [where plat = "test_platform (\<lambda>k. Fulfils 5 res_404_nope)" and k = 0
         and url = "''http://localhost/oops''"
         and ini = "build_init (new_client []) (call GET ''/oops'')"
         and tmo = "Some 15000" and t = 5 and res = res_404_nope and attempt = 1 and n = 1
         and parse = parseResponse and backoff = 300 and retry_on = default_retryOn]
    error_message_sources
      [where plat = "test_platform (\<lambda>k. Fulfils 5 (res_404_nope\<lparr>statusText := ''Not Found''\<rparr>))"
         and k = 0 and url = "''http://localhost/oops''"
         and ini = "build_init (new_client []) (call GET ''/oops'')"
         and tmo = "Some 15000" and t = 5 and res = "res_404_nope\<lparr>statusText := ''Not Found''\<rparr>"
         and attempt = 1 and n = 1
         and parse = parseResponse and backoff = 300 and retry_on = default_retryOn]
  by (simp add: model_defs fixture_defs attempt_loop.simps show_nat.simps digit_char_def)

text \<open>
  C5 as stated fails for an empty text body: a 404 with an empty \<open>text/plain\<close> body
  and the status text \<open>Not Found\<close> gets the message \<open>HTTP 404\<close>, not the status text.
\<close>

theorem empty_text_skips_status_text:
  "text_result res_404_empty_text = Inr []
   \<and> statusText res_404_empty_text = ''Not Found''
   \<and> request parseResponse (test_platform (\<lambda>k. Fulfils 5 res_404_empty_text)) (new_client [])
       (call GET ''/missing'')
     = (RejectedWith (ApiError ''HTTP 404'' 404 (JStr [])),
        [Fetch ''http://localhost/missing'' (build_init (new_client []) (call GET ''/missing''))])"
  by (simp add: model_defs fixture_defs attempt_loop.simps show_nat.simps digit_char_def)

text \<open>
  C4 on a 200 JSON response, and on the same body declared \<open>image/png\<close>: a blob for
  \<open>parseResponse\<close>, text for \<open>src/lib/api-client.ts\<close>.
\<close>

theorem success_decoding_witness:
  "try_block parseResponse (test_platform (\<lambda>k. Fulfils 5 res_200_ok))
     ''http://localhost/health'' (build_init (new_client []) (call GET ''/health''))
     (Some 15000) 1 300 default_retryOn 1 0
   = Return (FromJson (JObj [(''ok'', JBool True)]))
   \<and> parseResponse (res_200_ok\<lparr>content_type := Some ''image/png''\<rparr>)
     = Inr (FromBlob (map of_char (''{'' @ quoted ''ok'' @ '':true}'')))
   \<and> parseJsonOrText (res_200_ok\<lparr>content_type := Some ''image/png''\<rparr>)
     = Inr (FromText (''{'' @ quoted ''ok'' @ '':true}''))"
  using success_decoding
      [where plat = "test_platform (\<lambda>k. Fulfils 5 res_200_ok)" and k = 0
         and url = "''http://localhost/health''"
         and ini = "build_init (new_client []) (call GET ''/health'')"
         and tmo = "Some 15000" and t = 5 and res = res_200_ok and attempt = 1 and n = 1
         and parse = parseResponse and backoff = 300 and retry_on = default_retryOn]
    success_decoding
      [where plat = "test_platform (\<lambda>k. Fulfils 5 (res_200_ok\<lparr>content_type := Some ''image/png''\<rparr>))"
         and k = 0 and url = "''http://localhost/health''"
         and ini = "build_init (new_client []) (call GET ''/health'')"
         and tmo = "Some 15000" and t = 5
         and res = "res_200_ok\<lparr>content_type := Some ''image/png''\<rparr>" and attempt = 1 and n = 1
         and parse = parseResponse and backoff = 300 and retry_on = default_retryOn]
  by (simp add: test_platform_def res_200_ok_def makeRes_def withTimeout_def timer_delay_def
        awaited_def or_empty_def)

text \<open>
  C4 as stated fails when the body of a successful response cannot be decoded: a 200
  that declares JSON and has an empty body makes \<open>res.json()\<close> reject, and the call
  is rejected although the status is in 200-299 (in both revisions).
\<close>

theorem success_status_but_call_fails:
  "200 \<le> status res_200_empty \<and> status res_200_empty \<le> 299
   \<and> request parseResponse (test_platform (\<lambda>k. Fulfils 5 res_200_empty)) (new_client [])
       (call DELETE ''/rooms/1'')
     = (RejectedWith SyntaxError,
        [Fetch ''http://localhost/rooms/1'' (build_init (new_client []) (call DELETE ''/rooms/1''))])
   \<and> request parseJsonOrText (test_platform (\<lambda>k. Fulfils 5 res_200_empty)) (new_client [])
       (call DELETE ''/rooms/1'')
     = (RejectedWith SyntaxError,
        [Fetch ''http://localhost/rooms/1'' (build_init (new_client []) (call DELETE ''/rooms/1''))])"
  by (simp add: model_defs fixture_defs attempt_loop.simps)

text \<open>
  C7 does not hold of the code: \<open>delete mergedHeaders['Content-Type']\<close> removes the key
  spelled that way only. A POST of a \<open>FormData\<close> body with the per-call header
  \<open>'content-type'\<close> reaches the transport with that header, which the transport
  reads as a Content-Type.
\<close>

theorem lower_case_content_type_survives:
  "isMultipartLike (FormDataBody [(''file'', ''hi'')])
   \<and> init_headers
       (build_init (new_client [])
          ((call POST ''/upload'')
             \<lparr>body := Some (FormDataBody [(''file'', ''hi'')]),
              headers := Some [''content-type'' \<mapsto> ''application/json'']\<rparr>))
     = [''content-type'' \<mapsto> ''application/json'']
   \<and> has_header
       (init_headers
          (build_init (new_client [])
             ((call POST ''/upload'')
                \<lparr>body := Some (FormDataBody [(''file'', ''hi'')]),
                 headers := Some [''content-type'' \<mapsto> ''application/json'']\<rparr>)))
       ''Content-Type''"
proof -
  have h: "init_headers
       (build_init (new_client [])
          ((call POST ''/upload'')
             \<lparr>body := Some (FormDataBody [(''file'', ''hi'')]),
              headers := Some [''content-type'' \<mapsto> ''application/json'']\<rparr>))
     = [''content-type'' \<mapsto> ''application/json'']"
    by (simp add: model_defs fixture_defs fun_eq_iff map_add_def)
  have "has_header [''content-type'' \<mapsto> ''application/json''] ''Content-Type''"
    by (simp add: has_header_def lower_def lower_char_def)
  with h show ?thesis by simp
qed

end
